theory Spec2Isabelle
  imports Complex_Main
begin

section \<open>JavaScript primitives used by the handlers\<close>

text \<open>
  Strings are lists of code units below 256. Numbers are mathematical integers: every
  number the handlers compute is an integer, and JavaScript represents integers exactly
  up to \<open>2 ^ 53\<close>; rounding beyond that bound is outside this development. \<open>NaN\<close> is
  \<open>None\<close>, and \<open>-0\<close> is \<open>0\<close> (both are falsy and print alike).
\<close>

definition js_whitespace :: "char \<Rightarrow> bool" where
  \<comment> \<open>White space and line terminators of ECMAScript in the Latin-1 range:
      TAB, LF, VT, FF, CR, SPACE, NBSP.\<close>
  "js_whitespace c = (of_char c \<in> {9, 10, 11, 12, 13, 32, 160 :: nat})"

definition js_trim :: "string \<Rightarrow> string" where
  \<comment> \<open>\<open>String.prototype.trim\<close>\<close>
  "js_trim s = rev (dropWhile js_whitespace (rev (dropWhile js_whitespace s)))"

fun js_split :: "char \<Rightarrow> string \<Rightarrow> string list" where
  \<comment> \<open>\<open>String.prototype.split\<close> with a one-character separator;
      the empty string splits into one empty piece.\<close>
  "js_split sep [] = [[]]"
| "js_split sep (c # cs) =
     (if c = sep then [] # js_split sep cs
      else (case js_split sep cs of
              w # ws \<Rightarrow> (c # w) # ws
            | [] \<Rightarrow> [[c]]))"

fun js_index :: "'a list \<Rightarrow> nat \<Rightarrow> 'a option" where
  \<comment> \<open>\<open>xs[i]\<close>: reading past the end gives \<open>undefined\<close>.\<close>
  "js_index [] i = None"
| "js_index (x # xs) 0 = Some x"
| "js_index (x # xs) (Suc i) = js_index xs i"

fun js_join :: "string list \<Rightarrow> string" where
  \<comment> \<open>\<open>Array.prototype.join\<close> with the default separator \<open>,\<close>\<close>
  "js_join [] = []"
| "js_join [x] = x"
| "js_join (x # y # ys) = x @ CHR '','' # js_join (y # ys)"

definition digit_value :: "char \<Rightarrow> nat option" where
  \<comment> \<open>Value of a digit in radix up to 36, letters in either case.\<close>
  "digit_value c =
     (let n = (of_char c :: nat) in
      if 48 \<le> n \<and> n \<le> 57 then Some (n - 48)
      else if 97 \<le> n \<and> n \<le> 122 then Some (n - 87)
      else if 65 \<le> n \<and> n \<le> 90 then Some (n - 55)
      else None)"

definition is_digit :: "nat \<Rightarrow> char \<Rightarrow> bool" where
  "is_digit radix c = (case digit_value c of Some d \<Rightarrow> d < radix | None \<Rightarrow> False)"

definition digits_value :: "nat \<Rightarrow> string \<Rightarrow> nat" where
  "digits_value radix z = foldl (\<lambda>a c. a * radix + (case digit_value c of Some d \<Rightarrow> d | None \<Rightarrow> 0)) 0 z"

definition strip_sign :: "string \<Rightarrow> bool \<times> string" where
  \<comment> \<open>A leading \<open>-\<close> makes the result negative; a leading \<open>+\<close> or \<open>-\<close> is removed.\<close>
  "strip_sign s =
     (case s of
        c # r \<Rightarrow> if c = CHR ''-'' then (True, r)
                 else if c = CHR ''+'' then (False, r)
                 else (False, s)
      | [] \<Rightarrow> (False, s))"

definition parse_magnitude :: "string \<Rightarrow> nat option" where
  \<comment> \<open>Radix 16 after \<open>0x\<close> or \<open>0X\<close>, else 10; the longest run of digits; no digit is
      \<open>NaN\<close>.\<close>
  "parse_magnitude s =
     (let hex = (take 2 s = ''0x'' \<or> take 2 s = ''0X'');
          radix = (if hex then 16 else 10);
          z = takeWhile (is_digit radix) (if hex then drop 2 s else s)
      in if z = [] then None else Some (digits_value radix z))"

definition parseInt :: "string \<Rightarrow> int option" where
  \<comment> \<open>\<open>parseInt(string)\<close> with no radix argument: skip leading white space, read the
      sign, then the digits.\<close>
  "parseInt input =
     (case strip_sign (dropWhile js_whitespace input) of
        (neg, s) \<Rightarrow>
          (case parse_magnitude s of
             None \<Rightarrow> None
           | Some m \<Rightarrow> Some ((if neg then - 1 else 1) * int m)))"

fun decimal :: "nat \<Rightarrow> string" where
  \<comment> \<open>\<open>String(n)\<close> for a natural number\<close>
  "decimal n =
     (if n < 10 then [char_of (48 + n)]
      else decimal (n div 10) @ [char_of (48 + n mod 10)])"

declare decimal.simps [simp del]

datatype qval = QStr string | QArr "string list" | QObj
  \<comment> \<open>A value of \<open>req.query\<close>: a string, an array of strings (a repeated key), or an
      object (a bracketed key).\<close>

fun ToString :: "qval option \<Rightarrow> string" where
  "ToString None = ''undefined''"
| "ToString (Some (QStr s)) = s"
| "ToString (Some (QArr xs)) = js_join xs"
| "ToString (Some QObj) = ''[object Object]''"

fun truthy :: "qval \<Rightarrow> bool" where
  \<comment> \<open>Only the empty string is falsy; arrays and objects are truthy, empty or not.\<close>
  "truthy (QStr s) = (s \<noteq> [])"
| "truthy (QArr xs) = True"
| "truthy QObj = True"

definition or_default :: "int option \<Rightarrow> int \<Rightarrow> int" where
  \<comment> \<open>\<open>n || d\<close> on a number: \<open>NaN\<close> and \<open>0\<close> are falsy.\<close>
  "or_default n d = (case n of None \<Rightarrow> d | Some v \<Rightarrow> if v = 0 then d else v)"

definition ceil_div :: "int \<Rightarrow> int \<Rightarrow> int" where
  \<comment> \<open>\<open>Math.ceil(a / b)\<close> for integers \<open>a\<close> and \<open>b \<noteq> 0\<close>\<close>
  "ceil_div a b = - ((- a) div b)"

definition object_prototype_members :: "string list" where
  \<comment> \<open>The properties every object literal inherits from \<open>Object.prototype\<close>;
      each is a function or (for \<open>__proto__\<close>) an object, hence truthy.\<close>
  "object_prototype_members =
     [''constructor'', ''hasOwnProperty'', ''isPrototypeOf'', ''propertyIsEnumerable'',
      ''toLocaleString'', ''toString'', ''valueOf'', ''__proto__'',
      ''__defineGetter__'', ''__defineSetter__'', ''__lookupGetter__'', ''__lookupSetter__'']"

section \<open>Data model\<close>

type_synonym pk = string

datatype sort_order = ASC | DESC

datatype model_ref = Course | Student | Teacher

record relation_spec =
  model :: model_ref
  attributes :: "string list"
  through :: "string list option"
  \<comment> \<open>\<open>through: { attributes: [] }\<close> is \<open>Some []\<close>; no \<open>through\<close> key is \<open>None\<close>.\<close>

datatype include_item = Own relation_spec | Inherited string
  \<comment> \<open>What \<open>validRelations[name]\<close> evaluates to when it is truthy: an own entry of the
      object literal, or a member of \<open>Object.prototype\<close> found along the prototype chain.\<close>

record find_options =
  opt_include :: "include_item list option"
  opt_limit :: int
  opt_offset :: int
  opt_order :: "string \<times> sort_order"
  opt_distinct :: bool

record query =
  q_limit :: "qval option"
  q_page :: "qval option"
  q_sort :: "qval option"
  q_include :: "qval option"

record meta =
  totalItems :: int
  totalPages :: int
  currentPage :: int
  itemsPerPage :: int
  sortOrder :: sort_order
  includedRelations :: string

datatype 'r json_body =
    RecordBody 'r
  | EnvelopeBody meta "'r list"
  | MessageBody string
  | ErrorBody string
  | TextBody string
  | DefaultPage
  \<comment> \<open>\<open>DefaultPage\<close> is the page the framework itself writes for a status.\<close>

record 'r response =
  status :: nat
  body :: "'r json_body"

record 'r outcome =
  sent :: "'r response list"
  escaped :: "string option"
  \<comment> \<open>What one run of an async handler leaves behind: the responses written to \<open>res\<close>,
      in order, and the error its promise rejects with when an exception leaves the
      function.\<close>

definition send :: "nat \<Rightarrow> 'r json_body \<Rightarrow> 'r outcome" where
  \<comment> \<open>\<open>res.status(st).json(b)\<close>; \<open>res.json(b)\<close> is \<open>send 200 b\<close>.\<close>
  "send st b = \<lparr>sent = [\<lparr>status = st, body = b\<rparr>], escaped = None\<rparr>"

definition reject :: "string \<Rightarrow> 'r outcome" where
  "reject e = \<lparr>sent = [], escaped = Some e\<rparr>"

text \<open>
  The storage layer is an external library. A model (\<open>db.Student\<close>, \<open>db.Teacher\<close>) is a
  record of its five operations over a storage state \<open>'s\<close>; each returns \<open>Inl message\<close>
  when the awaited call throws an error with that message.
\<close>

record ('s, 'b, 'r) model_ops =
  db_create :: "'b \<Rightarrow> 's \<Rightarrow> (string + 'r) \<times> 's"
  db_findAndCountAll :: "find_options \<Rightarrow> 's \<Rightarrow> (string + int \<times> 'r list) \<times> 's"
  db_findByPk :: "pk \<Rightarrow> model_ref option \<Rightarrow> 's \<Rightarrow> (string + 'r option) \<times> 's"
  db_update :: "'r \<Rightarrow> 'b \<Rightarrow> 's \<Rightarrow> (string + 'r) \<times> 's"
  db_destroy :: "'r \<Rightarrow> 's \<Rightarrow> (string + unit) \<times> 's"

section \<open>Resource controllers\<close>

definition studentRelations :: "(string \<times> relation_spec) list" where
  "studentRelations =
     [(''Courses'', \<lparr>model = Course, attributes = [''id'', ''title'', ''description''],
                     through = Some []\<rparr>),
      (''Teacher'', \<lparr>model = Teacher, attributes = [''id'', ''name'', ''email''],
                     through = None\<rparr>)]"

definition teacherRelations :: "(string \<times> relation_spec) list" where
  "teacherRelations =
     [(''Courses'', \<lparr>model = Course, attributes = [''id'', ''title'', ''description''],
                     through = None\<rparr>),
      (''Students'', \<lparr>model = Student, attributes = [''id'', ''name''],
                      through = Some []\<rparr>)]"

definition js_get :: "(string \<times> relation_spec) list \<Rightarrow> string \<Rightarrow> include_item option" where
  \<comment> \<open>\<open>validRelations[name]\<close>: own properties first, then \<open>Object.prototype\<close>.\<close>
  "js_get obj name =
     (case map_of obj name of
        Some v \<Rightarrow> Some (Own v)
      | None \<Rightarrow> if name \<in> set object_prototype_members then Some (Inherited name) else None)"

definition list_limit :: "query \<Rightarrow> int" where
  "list_limit q = or_default (parseInt (ToString (q_limit q))) 10"

definition list_page :: "query \<Rightarrow> int" where
  "list_page q = or_default (parseInt (ToString (q_page q))) 1"

definition list_sortOrder :: "query \<Rightarrow> sort_order" where
  "list_sortOrder q = (if q_sort q = Some (QStr ''asc'') then ASC else DESC)"

definition list_includeParam :: "query \<Rightarrow> qval" where
  \<comment> \<open>\<open>req.query.include || ''\<close>\<close>
  "list_includeParam q =
     (case q_include q of
        None \<Rightarrow> QStr []
      | Some v \<Rightarrow> if truthy v then v else QStr [])"

definition list_include :: "(string \<times> relation_spec) list \<Rightarrow> string \<Rightarrow> include_item list" where
  \<comment> \<open>The \<open>forEach\<close> over \<open>includeParam.split(',')\<close>, pushing every truthy lookup.\<close>
  "list_include validRelations includeParam =
     foldl (\<lambda>acc relation.
              (case js_get validRelations (js_trim relation) of
                 Some item \<Rightarrow> acc @ [item]
               | None \<Rightarrow> acc))
       [] (js_split CHR '','' includeParam)"

definition list_options :: "(string \<times> relation_spec) list \<Rightarrow> query \<Rightarrow> string \<Rightarrow> find_options" where
  \<comment> \<open>The argument of \<open>findAndCountAll\<close>.\<close>
  "list_options validRelations q includeParam =
     (let incl = list_include validRelations includeParam in
      \<lparr>opt_include = (if incl \<noteq> [] then Some incl else None),
       opt_limit = list_limit q,
       opt_offset = (list_page q - 1) * list_limit q,
       opt_order = (''createdAt'', list_sortOrder q),
       opt_distinct = True\<rparr>)"

definition list_meta :: "query \<Rightarrow> string \<Rightarrow> int \<Rightarrow> meta" where
  "list_meta q includeParam count =
     \<lparr>totalItems = count,
      totalPages = ceil_div count (list_limit q),
      currentPage = list_page q,
      itemsPerPage = list_limit q,
      sortOrder = list_sortOrder q,
      includedRelations = (if includeParam \<noteq> [] then includeParam else ''none'')\<rparr>"

definition getAll ::
  "(string \<times> relation_spec) list \<Rightarrow> ('s, 'b, 'r) model_ops \<Rightarrow> query \<Rightarrow> 's \<Rightarrow> 'r outcome \<times> 's" where
  \<comment> \<open>The body shared by \<open>getAllStudents\<close> and \<open>getAllTeachers\<close>. An array or an object
      has no \<open>split\<close> method: the call throws a \<open>TypeError\<close> before the \<open>try\<close> block.\<close>
  "getAll validRelations ops q s =
     (case list_includeParam q of
        QStr includeParam \<Rightarrow>
          (case db_findAndCountAll ops (list_options validRelations q includeParam) s of
             (Inr (count, rows), s') \<Rightarrow>
               (send 200 (EnvelopeBody (list_meta q includeParam count) rows), s')
           | (Inl msg, s') \<Rightarrow> (send 500 (ErrorBody msg), s'))
      | _ \<Rightarrow> (reject ''TypeError: includeParam.split is not a function'', s))"

definition create_handler :: "('s, 'b, 'r) model_ops \<Rightarrow> 'b \<Rightarrow> 's \<Rightarrow> 'r outcome \<times> 's" where
  "create_handler ops b s =
     (case db_create ops b s of
        (Inr r, s') \<Rightarrow> (send 201 (RecordBody r), s')
      | (Inl msg, s') \<Rightarrow> (send 500 (ErrorBody msg), s'))"

definition getById_handler :: "('s, 'b, 'r) model_ops \<Rightarrow> pk \<Rightarrow> 's \<Rightarrow> 'r outcome \<times> 's" where
  "getById_handler ops ident s =
     (case db_findByPk ops ident (Some Course) s of
        (Inr None, s') \<Rightarrow> (send 404 (MessageBody ''Not found''), s')
      | (Inr (Some r), s') \<Rightarrow> (send 200 (RecordBody r), s')
      | (Inl msg, s') \<Rightarrow> (send 500 (ErrorBody msg), s'))"

definition update_handler :: "('s, 'b, 'r) model_ops \<Rightarrow> pk \<Rightarrow> 'b \<Rightarrow> 's \<Rightarrow> 'r outcome \<times> 's" where
  "update_handler ops ident b s =
     (case db_findByPk ops ident None s of
        (Inr None, s1) \<Rightarrow> (send 404 (MessageBody ''Not found''), s1)
      | (Inr (Some r), s1) \<Rightarrow>
          (case db_update ops r b s1 of
             (Inr r', s2) \<Rightarrow> (send 200 (RecordBody r'), s2)
           | (Inl msg, s2) \<Rightarrow> (send 500 (ErrorBody msg), s2))
      | (Inl msg, s1) \<Rightarrow> (send 500 (ErrorBody msg), s1))"

definition delete_handler :: "('s, 'b, 'r) model_ops \<Rightarrow> pk \<Rightarrow> 's \<Rightarrow> 'r outcome \<times> 's" where
  "delete_handler ops ident s =
     (case db_findByPk ops ident None s of
        (Inr None, s1) \<Rightarrow> (send 404 (MessageBody ''Not found''), s1)
      | (Inr (Some r), s1) \<Rightarrow>
          (case db_destroy ops r s1 of
             (Inr u, s2) \<Rightarrow> (send 200 (MessageBody ''Deleted''), s2)
           | (Inl msg, s2) \<Rightarrow> (send 500 (ErrorBody msg), s2))
      | (Inl msg, s1) \<Rightarrow> (send 500 (ErrorBody msg), s1))"


definition getAllStudents :: "('s, 'b, 'r) model_ops \<Rightarrow> query \<Rightarrow> 's \<Rightarrow> 'r outcome \<times> 's" where
  "getAllStudents = getAll studentRelations"

definition getStudentById :: "('s, 'b, 'r) model_ops \<Rightarrow> pk \<Rightarrow> 's \<Rightarrow> 'r outcome \<times> 's" where
  "getStudentById = getById_handler"


definition deleteStudent :: "('s, 'b, 'r) model_ops \<Rightarrow> pk \<Rightarrow> 's \<Rightarrow> 'r outcome \<times> 's" where
  "deleteStudent = delete_handler"


definition getAllTeachers :: "('s, 'b, 'r) model_ops \<Rightarrow> query \<Rightarrow> 's \<Rightarrow> 'r outcome \<times> 's" where
  "getAllTeachers = getAll teacherRelations"

definition getTeacherById :: "('s, 'b, 'r) model_ops \<Rightarrow> pk \<Rightarrow> 's \<Rightarrow> 'r outcome \<times> 's" where
  "getTeacherById = getById_handler"


definition deleteTeacher :: "('s, 'b, 'r) model_ops \<Rightarrow> pk \<Rightarrow> 's \<Rightarrow> 'r outcome \<times> 's" where
  "deleteTeacher = delete_handler"

section \<open>Authentication middleware\<close>

datatype http_method = GET | POST | PUT | DELETE | PATCH
  \<comment> \<open>The methods of the declared routes, and \<open>PATCH\<close>, for which none is declared.\<close>

record ('b, 'u) request =
  req_method :: http_method
  req_path :: "string list"
  req_query :: query
  req_body :: 'b
  body_malformed :: bool
  authorization :: "string option"
  user :: "'u option"
  \<comment> \<open>\<open>req_path\<close> is the list of the path's segments as the router compares them;
      \<open>authorization\<close> is \<open>req.headers.authorization\<close>, \<open>None\<close> when the header is not
      sent; \<open>body_malformed\<close> says that the body is not the JSON its content type
      announces.\<close>

datatype ('s, 'b, 'u, 'r) step =
    Done "'r outcome \<times> 's"
  | Next "('b, 'u) request" 's
  \<comment> \<open>A middleware either ends the request or calls \<open>next()\<close>.\<close>

type_synonym ('s, 'b, 'u, 'r) middleware = "('b, 'u) request \<Rightarrow> 's \<Rightarrow> ('s, 'b, 'u, 'r) step"

definition sendStatus :: "nat \<Rightarrow> 'r outcome" where
  \<comment> \<open>\<open>res.sendStatus(code)\<close>: the status with its reason phrase as the body, or the
      number when the code has none. The source sends 401 and 403 only.\<close>
  "sendStatus code =
     send code (TextBody (if code = 401 then ''Unauthorized''
                          else if code = 403 then ''Forbidden''
                          else decimal code))"

definition jwt_verify :: "(string \<Rightarrow> 'u option) \<Rightarrow> string option \<Rightarrow> 'u option" where
  \<comment> \<open>\<open>jwt.verify(token, JWT_SECRET, callback)\<close> of the jsonwebtoken library. A missing
      or empty token is refused (\<open>jwt must be provided\<close>) before anything is checked; for
      every other token \<open>check\<close> is the signature and expiry check against \<open>JWT_SECRET\<close>,
      \<open>Some\<close> of the decoded claims when it passes.\<close>
  "jwt_verify check token =
     (case token of
        None \<Rightarrow> None
      | Some t \<Rightarrow> if t = [] then None else check t)"

definition authenticateJWT :: "(string \<Rightarrow> 'u option) \<Rightarrow> ('s, 'b, 'u, 'r) middleware" where
  "authenticateJWT check req s =
     (case authorization req of
        None \<Rightarrow> Done (sendStatus 401, s)
      | Some authHeader \<Rightarrow>
          if authHeader \<noteq> [] then
            (case jwt_verify check (js_index (js_split CHR '' '' authHeader) 1) of
               None \<Rightarrow> Done (sendStatus 403, s)
             | Some u \<Rightarrow> Next (req\<lparr>user := Some u\<rparr>) s)
          else Done (sendStatus 401, s))"

section \<open>Routing and composition\<close>








record ('s, 'b, 'r) controller =
  ctl_create :: "'b \<Rightarrow> 's \<Rightarrow> 'r outcome \<times> 's"
  ctl_getAll :: "query \<Rightarrow> 's \<Rightarrow> 'r outcome \<times> 's"
  ctl_getById :: "pk \<Rightarrow> 's \<Rightarrow> 'r outcome \<times> 's"
  ctl_update :: "pk \<Rightarrow> 'b \<Rightarrow> 's \<Rightarrow> 'r outcome \<times> 's"
  ctl_delete :: "pk \<Rightarrow> 's \<Rightarrow> 'r outcome \<times> 's"

fun resource_router :: "('s, 'b, 'r) controller \<Rightarrow> ('s, 'b, 'u, 'r) middleware" where
  \<comment> \<open>Modelled from the spec: the route files \<open>routes/student.routes.js\<close> and
      \<open>routes/teacher.routes.js\<close> are missing. The spec's HTTP surface lists five routes per
      resource: \<open>POST /\<close>, \<open>GET /\<close>, \<open>GET /:id\<close>, \<open>PUT /:id\<close>, \<open>DELETE /:id\<close>, each bound to
      the controller function of that name. A request that matches none is passed on.\<close>
  "resource_router c req s =
     (case (req_method req, req_path req) of
        (POST, []) \<Rightarrow> Done (ctl_create c (req_body req) s)
      | (GET, []) \<Rightarrow> Done (ctl_getAll c (req_query req) s)
      | (GET, [ident]) \<Rightarrow> Done (ctl_getById c ident s)
      | (PUT, [ident]) \<Rightarrow> Done (ctl_update c ident (req_body req) s)
      | (DELETE, [ident]) \<Rightarrow> Done (ctl_delete c ident s)
      | _ \<Rightarrow> Next req s)"



section \<open>A reference storage layer\<close>

text \<open>
  The controllers above run against any storage behaviour. To run them on data, this is
  a table of rows in memory with the semantics the controllers expect of the ORM: primary
  keys are generated on insert, \<open>findByPk\<close> reads, \<open>destroy\<close> removes the row with the
  instance's key, \<open>findAndCountAll\<close> counts all rows and returns the requested window
  in \<open>createdAt\<close> order. None of its reads and writes fails; the window query refuses
  what the ORM and the database refuse (a negative \<open>LIMIT\<close> or \<open>OFFSET\<close>, an include
  entry that is no relation).
\<close>

record row =
  row_id :: pk
  row_attrs :: "(string \<times> string) list"
  createdAt :: nat

record table =
  rows :: "row list"
  next_id :: nat

definition table_window :: "find_options \<Rightarrow> table \<Rightarrow> string + int \<times> row list" where
  "table_window opts t =
     (if opt_limit opts < 0 \<or> opt_offset opts < 0 then Inl ''SQL syntax error''
      else if (case opt_include opts of
                 Some items \<Rightarrow> list_ex (\<lambda>i. case i of Inherited n \<Rightarrow> True | Own r \<Rightarrow> False) items
               | None \<Rightarrow> False)
      then Inl ''Include unexpected. Element has to be either a Model, an Association or an object.''
      else
        (let ordered = (case snd (opt_order opts) of
                          ASC \<Rightarrow> sort_key createdAt (rows t)
                        | DESC \<Rightarrow> rev (sort_key createdAt (rows t)))
         in Inr (int (length (rows t)),
                 take (nat (opt_limit opts)) (drop (nat (opt_offset opts)) ordered))))"

definition table_ops :: "(table, (string \<times> string) list, row) model_ops" where
  "table_ops =
     \<lparr>db_create = (\<lambda>b t.
        (let r = \<lparr>row_id = decimal (next_id t), row_attrs = b, createdAt = next_id t\<rparr>
         in (Inr r, t\<lparr>rows := rows t @ [r], next_id := Suc (next_id t)\<rparr>))),
      db_findAndCountAll = (\<lambda>opts t. (table_window opts t, t)),
      db_findByPk = (\<lambda>ident incl t. (Inr (find (\<lambda>r. row_id r = ident) (rows t)), t)),
      db_update = (\<lambda>r b t.
        (let r' = r\<lparr>row_attrs := b @ filter (\<lambda>kv. map_of b (fst kv) = None) (row_attrs r)\<rparr>
         in (Inr r', t\<lparr>rows := map (\<lambda>x. if row_id x = row_id r then r' else x) (rows t)\<rparr>))),
      db_destroy = (\<lambda>r t. (Inr (), t\<lparr>rows := filter (\<lambda>x. row_id x \<noteq> row_id r) (rows t)\<rparr>))\<rparr>"

record school =
  studentTable :: table
  teacherTable :: table




definition ada :: row where
  "ada = \<lparr>row_id = ''1'', row_attrs = [(''name'', ''Ada'')], createdAt = 1\<rparr>"

definition bob :: row where
  "bob = \<lparr>row_id = ''2'', row_attrs = [(''name'', ''Bob'')], createdAt = 2\<rparr>"

definition two_rows :: table where
  "two_rows = \<lparr>rows = [ada, bob], next_id = 3\<rparr>"

definition small_school :: school where
  "small_school = \<lparr>studentTable = two_rows, teacherTable = \<lparr>rows = [], next_id = 1\<rparr>\<rparr>"

definition no_query :: query where
  "no_query = \<lparr>q_limit = None, q_page = None, q_sort = None, q_include = None\<rparr>"

definition accept_good :: "string \<Rightarrow> string option" where
  \<comment> \<open>A verifier for concrete runs: the only valid token is \<open>good\<close>, issued to \<open>ada\<close>.\<close>
  "accept_good t = (if t = ''good'' then Some ''ada'' else None)"

definition get_student_1 :: "((string \<times> string) list, string) request" where
  \<comment> \<open>\<open>GET /students/1\<close> with no \<open>Authorization\<close> header.\<close>
  "get_student_1 =
     \<lparr>req_method = GET, req_path = [''students'', ''1''], req_query = no_query, req_body = [],
      body_malformed = False, authorization = None, user = None\<rparr>"



definition page_2_of_1 :: query where
  \<comment> \<open>\<open>?limit=1&page=2\<close>\<close>
  "page_2_of_1 = no_query\<lparr>q_limit := Some (QStr ''1''), q_page := Some (QStr ''2'')\<rparr>"



definition asc_query :: query where
  \<comment> \<open>\<open>?sort=asc\<close>\<close>
  "asc_query = no_query\<lparr>q_sort := Some (QStr ''asc'')\<rparr>"

definition include_query :: "string \<Rightarrow> query" where
  \<comment> \<open>\<open>?include=\<close> followed by the given text\<close>
  "include_query text = no_query\<lparr>q_include := Some (QStr text)\<rparr>"

definition repeated_include :: query where
  \<comment> \<open>\<open>?include=Courses&include=Teacher\<close>: the query parser delivers an array.\<close>
  "repeated_include = no_query\<lparr>q_include := Some (QArr [''Courses'', ''Teacher''])\<rparr>"


section \<open>Properties of the primitives\<close>

lemma js_split_no_sep: "sep \<notin> set s \<Longrightarrow> js_split sep s = [s]"
  by (induction s) auto











lemma parseInt_undefined: "parseInt ''undefined'' = None"
  by (simp add: parseInt_def strip_sign_def parse_magnitude_def js_whitespace_def
      is_digit_def digit_value_def)


lemma parseInt_1: "parseInt ''1'' = Some 1"
  by (simp add: parseInt_def strip_sign_def parse_magnitude_def js_whitespace_def
      is_digit_def digit_value_def digits_value_def)

lemma parseInt_2: "parseInt ''2'' = Some 2"
  by (simp add: parseInt_def strip_sign_def parse_magnitude_def js_whitespace_def
      is_digit_def digit_value_def digits_value_def)

section \<open>The authentication middleware\<close>

lemma sendStatus_distinct: "sendStatus 401 \<noteq> sendStatus 403"
  by (simp add: sendStatus_def send_def)

text \<open>
  Claim C2, as the code has it. A request without an \<open>Authorization\<close> header, or with an
  empty one, is answered 401 and \<open>next\<close> is not called. A non-empty header whose second
  space-delimited segment fails verification is answered 403. When that segment verifies,
  the decoded claims are stored in \<open>req.user\<close> and \<open>next\<close> is called.
\<close>

theorem authenticateJWT_cases:
  "(authorization req = None \<or> authorization req = Some [] \<longrightarrow>
      authenticateJWT check req s = Done (sendStatus 401, s)) \<and>
   (\<forall>h. authorization req = Some h \<and> h \<noteq> [] \<and>
        jwt_verify check (js_index (js_split CHR '' '' h) 1) = None \<longrightarrow>
      authenticateJWT check req s = Done (sendStatus 403, s)) \<and>
   (\<forall>h u. authorization req = Some h \<and>
        jwt_verify check (js_index (js_split CHR '' '' h) 1) = Some u \<longrightarrow>
      authenticateJWT check req s = Next (req\<lparr>user := Some u\<rparr>) s)"
  by (auto simp: authenticateJWT_def jwt_verify_def)

theorem authenticateJWT_cases_witness:
  "authenticateJWT accept_good get_student_1 small_school
     = Done (sendStatus 401 :: row outcome, small_school) \<and>
   authenticateJWT accept_good (get_student_1\<lparr>authorization := Some ''Bearer bad''\<rparr>) small_school
     = Done (sendStatus 403 :: row outcome, small_school) \<and>
   authenticateJWT accept_good (get_student_1\<lparr>authorization := Some ''Bearer good''\<rparr>) small_school
     = (Next (get_student_1\<lparr>authorization := Some ''Bearer good'', user := Some ''ada''\<rparr>)
          small_school :: (school, (string \<times> string) list, string, row) step)"
  using authenticateJWT_cases [of get_student_1 accept_good small_school]
    authenticateJWT_cases [of "get_student_1\<lparr>authorization := Some ''Bearer bad''\<rparr>"
      accept_good small_school]
    authenticateJWT_cases [of "get_student_1\<lparr>authorization := Some ''Bearer good''\<rparr>"
      accept_good small_school]
  by (simp add: get_student_1_def jwt_verify_def accept_good_def)

text \<open>
  Claim C2 as stated fails on a header that is present with an empty value: the header is
  there, verification of its second segment fails, and the answer is not 403.
\<close>

theorem empty_header_not_403:
  "authorization (get_student_1\<lparr>authorization := Some []\<rparr>) = Some [] \<and>
   jwt_verify accept_good (js_index (js_split CHR '' '' []) 1) = None \<and>
   authenticateJWT accept_good (get_student_1\<lparr>authorization := Some []\<rparr>) small_school
     \<noteq> Done (sendStatus 403 :: row outcome, small_school)"
  by (simp add: authenticateJWT_def jwt_verify_def sendStatus_distinct)

text \<open>
  Claim C9, as the code has it. A non-empty header without a space has no second segment:
  the token is \<open>undefined\<close>, verification is still attempted and the answer is 403. The
  answer is 401 exactly when the header is absent or empty.
\<close>

theorem authenticateJWT_no_token:
  "(\<forall>h. authorization req = Some h \<and> h \<noteq> [] \<and> CHR '' '' \<notin> set h \<longrightarrow>
      js_index (js_split CHR '' '' h) 1 = None \<and>
      authenticateJWT check req s = Done (sendStatus 403, s)) \<and>
   (authenticateJWT check req s = Done (sendStatus 401, s) \<longleftrightarrow>
      authorization req = None \<or> authorization req = Some [])"
  by (auto simp: authenticateJWT_def jwt_verify_def js_split_no_sep sendStatus_distinct
      sendStatus_distinct [symmetric] split: option.splits)

theorem authenticateJWT_no_token_witness:
  "authenticateJWT accept_good (get_student_1\<lparr>authorization := Some ''good''\<rparr>) small_school
     = Done (sendStatus 403 :: row outcome, small_school) \<and>
   authenticateJWT accept_good (get_student_1\<lparr>authorization := Some ''good''\<rparr>) small_school
     \<noteq> Done (sendStatus 401 :: row outcome, small_school)"
  using authenticateJWT_no_token [of "get_student_1\<lparr>authorization := Some ''good''\<rparr>"
      accept_good small_school]
  by (simp add: get_student_1_def)

text \<open>
  Claim C9 as stated fails on the same header: it is not absent, and the answer is 401.
\<close>

theorem present_header_401:
  "authorization (get_student_1\<lparr>authorization := Some []\<rparr>) \<noteq> None \<and>
   authenticateJWT accept_good (get_student_1\<lparr>authorization := Some []\<rparr>) small_school
     = Done (sendStatus 401 :: row outcome, small_school)"
  by (simp add: authenticateJWT_def)

section \<open>The list operation\<close>

lemma getAll_success:
  assumes "list_includeParam q = QStr ip"
    and "db_findAndCountAll ops (list_options vr q ip) s = (Inr (N, rs), s')"
  shows "getAll vr ops q s = (send 200 (EnvelopeBody (list_meta q ip N) rs), s')"
  using assms by (simp add: getAll_def)

lemma getAll_failure:
  assumes "list_includeParam q = QStr ip"
    and "db_findAndCountAll ops (list_options vr q ip) s = (Inl msg, s')"
  shows "getAll vr ops q s = (send 500 (ErrorBody msg), s')"
  using assms by (simp add: getAll_def)

lemma list_handlers:
  assumes "(handler, vr) \<in>
             {(getAllStudents, studentRelations), (getAllTeachers, teacherRelations)}"
  shows "handler = getAll vr"
  using assms by (auto simp: getAllStudents_def getAllTeachers_def)

lemma page_2_of_1_values: "list_limit page_2_of_1 = 1" "list_page page_2_of_1 = 2"
  by (simp_all add: page_2_of_1_def no_query_def list_limit_def list_page_def
      or_default_def parseInt_1 parseInt_2)

lemma page_2_of_1_sort: "list_sortOrder page_2_of_1 = DESC"
  by (simp add: list_sortOrder_def page_2_of_1_def no_query_def)

lemma page_2_of_1_include: "list_includeParam page_2_of_1 = QStr []"
  by (simp add: list_includeParam_def page_2_of_1_def no_query_def)

lemma list_include_empty: "list_include studentRelations [] = []"
  by (simp add: list_include_def js_get_def studentRelations_def
      object_prototype_members_def js_trim_def)

lemma page_2_of_1_window:
  "db_findAndCountAll table_ops (list_options studentRelations page_2_of_1 []) two_rows
     = (Inr (2, [ada]), two_rows)"
  by (simp add: table_ops_def table_window_def list_options_def list_include_empty
      page_2_of_1_values page_2_of_1_sort two_rows_def ada_def bob_def)




lemma list_include_fold:
  "foldl (\<lambda>acc relation. (case f relation of Some item \<Rightarrow> acc @ [item] | None \<Rightarrow> acc)) acc xs
     = acc @ List.map_filter f xs"
  by (induction xs arbitrary: acc) (auto split: option.splits)

lemma list_include_map_filter:
  "list_include vr ip =
     List.map_filter (\<lambda>relation. js_get vr (js_trim relation)) (js_split CHR '','' ip)"
  unfolding list_include_def by (simp add: list_include_fold)

lemma js_get_own:
  "name \<notin> set object_prototype_members \<Longrightarrow> js_get vr name = map_option Own (map_of vr name)"
  by (simp add: js_get_def split: option.splits)

lemma js_get_inherited:
  "name \<in> set object_prototype_members \<Longrightarrow> map_of vr name = None \<Longrightarrow>
     js_get vr name = Some (Inherited name)"
  by (simp add: js_get_def)

lemma list_include_none:
  assumes "\<forall>relation \<in> set (js_split CHR '','' ip). js_get vr (js_trim relation) = None"
  shows "list_include vr ip = []"
  using assms unfolding list_include_map_filter
  by (induction "js_split CHR '','' ip") (auto simp: List.map_filter_def)

lemma unrecognized_include_same_query:
  assumes "\<forall>relation \<in> set (js_split CHR '','' ip). js_get vr (js_trim relation) = None"
    and "js_get vr [] = None"
  shows "list_options vr q ip = list_options vr q []"
proof -
  have "list_include vr ip = []" using assms(1) by (rule list_include_none)
  moreover have "list_include vr [] = []"
    using assms(2) by (simp add: list_include_map_filter js_trim_def)
  ultimately show ?thesis by (simp add: list_options_def)
qed








lemma asc_query_values:
  "list_limit asc_query = 10" "list_page asc_query = 1" "list_sortOrder asc_query = ASC"
  "list_includeParam asc_query = QStr []" "q_sort asc_query = Some (QStr ''asc'')"
  by (simp_all add: asc_query_def no_query_def list_limit_def list_page_def or_default_def
      parseInt_undefined list_sortOrder_def list_includeParam_def)

lemma asc_query_window:
  "db_findAndCountAll table_ops (list_options teacherRelations asc_query []) two_rows
     = (Inr (2, [ada, bob]), two_rows)"
  by (simp add: table_ops_def table_window_def list_options_def list_include_none
      asc_query_values two_rows_def ada_def bob_def js_get_def teacherRelations_def
      object_prototype_members_def js_trim_def)

lemma page_2_of_1_sort_param: "q_sort page_2_of_1 \<noteq> Some (QStr ''asc'')"
  by (simp add: page_2_of_1_def no_query_def)

text \<open>
  Claim C5. The storage query of a list request is ordered by \<open>createdAt\<close>, ascending when
  the \<open>sort\<close> parameter is the string \<open>asc\<close> and descending for every other value and when
  it is absent; the envelope reports the same direction. This holds for \<open>getAllStudents\<close>
  and \<open>getAllTeachers\<close>.
\<close>

theorem list_sort_order:
  assumes "(handler, vr) \<in>
             {(getAllStudents, studentRelations), (getAllTeachers, teacherRelations)}"
    and "list_includeParam q = QStr ip"
    and "db_findAndCountAll ops (list_options vr q ip) s = (Inr (N, rs), s')"
  shows "(q_sort q = Some (QStr ''asc'') \<longrightarrow>
            opt_order (list_options vr q ip) = (''createdAt'', ASC) \<and>
            (\<exists>m. handler ops q s = (send 200 (EnvelopeBody m rs), s') \<and> sortOrder m = ASC)) \<and>
         (q_sort q \<noteq> Some (QStr ''asc'') \<longrightarrow>
            opt_order (list_options vr q ip) = (''createdAt'', DESC) \<and>
            (\<exists>m. handler ops q s = (send 200 (EnvelopeBody m rs), s') \<and> sortOrder m = DESC))"
proof -
  have h: "handler = getAll vr" using assms(1) by (rule list_handlers)
  have r: "handler ops q s = (send 200 (EnvelopeBody (list_meta q ip N) rs), s')"
    unfolding h using assms(2,3) by (rule getAll_success)
  have "opt_order (list_options vr q ip) = (''createdAt'', list_sortOrder q)"
    by (simp add: list_options_def Let_def)
  moreover have "sortOrder (list_meta q ip N) = list_sortOrder q"
    by (simp add: list_meta_def)
  ultimately show ?thesis using r by (auto simp: list_sortOrder_def)
qed

theorem list_sort_order_witness:
  "opt_order (list_options teacherRelations asc_query []) = (''createdAt'', ASC) \<and>
   (\<exists>m. getAllTeachers table_ops asc_query two_rows = (send 200 (EnvelopeBody m [ada, bob]), two_rows)
        \<and> sortOrder m = ASC) \<and>
   opt_order (list_options studentRelations page_2_of_1 []) = (''createdAt'', DESC) \<and>
   (\<exists>m. getAllStudents table_ops page_2_of_1 two_rows = (send 200 (EnvelopeBody m [ada]), two_rows)
        \<and> sortOrder m = DESC)"
  using list_sort_order [of getAllTeachers teacherRelations asc_query "[]" table_ops two_rows
      2 "[ada, bob]" two_rows]
    list_sort_order [of getAllStudents studentRelations page_2_of_1 "[]" table_ops two_rows
      2 "[ada]" two_rows]
  by (simp add: asc_query_values asc_query_window page_2_of_1_include page_2_of_1_window
      page_2_of_1_sort_param)

text \<open>
  Claim C6 fails on the names every object inherits: \<open>validRelations[name]\<close> follows the
  prototype chain, so \<open>constructor\<close>, which is in neither allow-list, is truthy and is
  pushed into the include list of the storage query.
\<close>

theorem include_constructor_kept:
  "map_of studentRelations ''constructor'' = None \<and>
   map_of teacherRelations ''constructor'' = None \<and>
   opt_include (list_options studentRelations (include_query ''constructor'') ''constructor'')
     = Some [Inherited ''constructor''] \<and>
   opt_include (list_options teacherRelations (include_query ''constructor'') ''constructor'')
     = Some [Inherited ''constructor'']"
  by (simp add: list_options_def list_include_map_filter js_get_def js_trim_def
      js_whitespace_def studentRelations_def teacherRelations_def object_prototype_members_def)

text \<open>
  Claim C7 fails for the same reason: \<open>toString\<close> names no relation, yet the storage query
  differs from the one built without \<open>include\<close>, and the reference storage layer answers
  it with an error where the request without \<open>include\<close> gets its envelope.
\<close>

theorem include_toString_differs:
  "list_includeParam (include_query ''toString'') = QStr ''toString'' \<and>
   opt_include (list_options studentRelations (include_query ''toString'') ''toString'')
     = Some [Inherited ''toString''] \<and>
   list_includeParam no_query = QStr [] \<and>
   opt_include (list_options studentRelations no_query []) = None \<and>
   map status (sent (fst (getAllStudents table_ops (include_query ''toString'') two_rows))) = [500] \<and>
   map status (sent (fst (getAllStudents table_ops no_query two_rows))) = [200]"
  by (simp add: getAllStudents_def getAll_def list_includeParam_def include_query_def
      no_query_def list_options_def list_include_map_filter js_get_def js_trim_def
      js_whitespace_def studentRelations_def object_prototype_members_def
      table_ops_def table_window_def send_def list_limit_def list_page_def or_default_def
      parseInt_undefined two_rows_def)

text \<open>
  Claim C10 fails on a repeated \<open>include\<close> key: the parameter is an array, \<open>split\<close> is
  not a function of it, and the \<open>TypeError\<close> is thrown before the \<open>try\<close> block. The
  handler sends no response at all, whatever the storage layer is.
\<close>

theorem repeated_include_escapes:
  "getAllStudents ops repeated_include s
     = (\<lparr>sent = [], escaped = Some ''TypeError: includeParam.split is not a function''\<rparr>, s) \<and>
   getAllTeachers ops repeated_include s
     = (\<lparr>sent = [], escaped = Some ''TypeError: includeParam.split is not a function''\<rparr>, s)"
  by (simp add: getAllStudents_def getAllTeachers_def getAll_def list_includeParam_def
      repeated_include_def no_query_def reject_def)

section \<open>Status codes of the five operations\<close>

lemma create_handler_status:
  "\<exists>st b. fst (create_handler ops payload s) = send st b \<and> st \<in> {201, 500}"
  by (auto simp: create_handler_def split: prod.splits sum.splits)

lemma getById_handler_status:
  "\<exists>st b. fst (getById_handler ops ident s) = send st b \<and> st \<in> {200, 404, 500}"
  by (auto simp: getById_handler_def split: prod.splits sum.splits option.splits)

lemma update_handler_status:
  "\<exists>st b. fst (update_handler ops ident payload s) = send st b \<and> st \<in> {200, 404, 500}"
  by (auto simp: update_handler_def split: prod.splits sum.splits option.splits)

lemma delete_handler_status:
  "\<exists>st b. fst (delete_handler ops ident s) = send st b \<and> st \<in> {200, 404, 500}"
  by (auto simp: delete_handler_def split: prod.splits sum.splits option.splits)

lemma getAll_status:
  "list_includeParam q = QStr ip \<Longrightarrow>
     \<exists>st b. fst (getAll vr ops q s) = send st b \<and> st \<in> {200, 500}"
  by (auto simp: getAll_def split: prod.splits sum.splits)

lemma send_once: "length (sent (send st b)) = 1 \<and> escaped (send st b) = None"
  by (simp add: send_def)

section \<open>Delete, then read\<close>

lemma find_after_destroy:
  "find (\<lambda>r. row_id r = ident) (filter (\<lambda>x. row_id x \<noteq> ident) rs) = None"
  by (induction rs) auto

lemma find_key: "find (\<lambda>r. row_id r = ident) rs = Some r \<Longrightarrow> row_id r = ident"
  by (induction rs) (auto split: if_splits)

lemma delete_missing:
  assumes "find (\<lambda>r. row_id r = ident) (rows t) = None"
  shows "delete_handler table_ops ident t = (send 404 (MessageBody ''Not found''), t)"
  using assms by (simp add: delete_handler_def table_ops_def)

lemma delete_existing:
  assumes "find (\<lambda>r. row_id r = ident) (rows t) = Some r"
  shows "delete_handler table_ops ident t
           = (send 200 (MessageBody ''Deleted''),
              t\<lparr>rows := filter (\<lambda>x. row_id x \<noteq> ident) (rows t)\<rparr>)"
  using assms find_key [OF assms] by (simp add: delete_handler_def table_ops_def)

lemma getById_missing:
  assumes "find (\<lambda>r. row_id r = ident) (rows t) = None"
  shows "getById_handler table_ops ident t = (send 404 (MessageBody ''Not found''), t)"
  using assms by (simp add: getById_handler_def table_ops_def)

lemma item_handlers:
  assumes "(del, get) \<in> {(deleteStudent, getStudentById), (deleteTeacher, getTeacherById)}"
  shows "del = delete_handler \<and> get = getById_handler"
  using assms
  by (auto simp: deleteStudent_def deleteTeacher_def getStudentById_def getTeacherById_def)

text \<open>
  Claim C8, over the reference storage layer, whose reads and writes do not fail. Deleting
  an id that no row has is answered 404 and leaves the table as it was. Deleting the id of
  a row is answered 200 with the message \<open>Deleted\<close> and removes the row, and reading the
  same id afterwards is answered 404 with the message \<open>Not found\<close>. This holds for the
  Student and the Teacher controller.
\<close>

theorem delete_then_get:
  assumes "(del, get) \<in> {(deleteStudent, getStudentById), (deleteTeacher, getTeacherById)}"
  shows "(find (\<lambda>r. row_id r = ident) (rows t) = None \<longrightarrow>
            del table_ops ident t = (send 404 (MessageBody ''Not found''), t)) \<and>
         (\<forall>r. find (\<lambda>r. row_id r = ident) (rows t) = Some r \<longrightarrow>
            (\<exists>t'. del table_ops ident t = (send 200 (MessageBody ''Deleted''), t') \<and>
                  find (\<lambda>r. row_id r = ident) (rows t') = None \<and>
                  rows t' = filter (\<lambda>x. row_id x \<noteq> ident) (rows t) \<and>
                  get table_ops ident t' = (send 404 (MessageBody ''Not found''), t')))"
proof -
  have h: "del = delete_handler" "get = getById_handler"
    using item_handlers [OF assms] by simp_all
  show ?thesis
  proof (intro conjI impI allI)
    assume "find (\<lambda>r. row_id r = ident) (rows t) = None"
    then show "del table_ops ident t = (send 404 (MessageBody ''Not found''), t)"
      unfolding h by (rule delete_missing)
  next
    fix r assume r: "find (\<lambda>r. row_id r = ident) (rows t) = Some r"
    let ?t' = "t\<lparr>rows := filter (\<lambda>x. row_id x \<noteq> ident) (rows t)\<rparr>"
    have gone: "find (\<lambda>r. row_id r = ident) (rows ?t') = None"
      by (simp add: find_after_destroy)
    have "del table_ops ident t = (send 200 (MessageBody ''Deleted''), ?t')"
      unfolding h using r by (rule delete_existing)
    moreover have "get table_ops ident ?t' = (send 404 (MessageBody ''Not found''), ?t')"
      unfolding h using gone by (rule getById_missing)
    moreover have "rows ?t' = filter (\<lambda>x. row_id x \<noteq> ident) (rows t)" by simp
    ultimately show "\<exists>t'. del table_ops ident t = (send 200 (MessageBody ''Deleted''), t') \<and>
                  find (\<lambda>r. row_id r = ident) (rows t') = None \<and>
                  rows t' = filter (\<lambda>x. row_id x \<noteq> ident) (rows t) \<and>
                  get table_ops ident t' = (send 404 (MessageBody ''Not found''), t')"
      using gone by blast
  qed
qed

theorem delete_then_get_witness:
  "deleteStudent table_ops ''7'' two_rows = (send 404 (MessageBody ''Not found''), two_rows) \<and>
   (\<exists>t'. deleteStudent table_ops ''1'' two_rows = (send 200 (MessageBody ''Deleted''), t') \<and>
         rows t' = [bob] \<and>
         getStudentById table_ops ''1'' t' = (send 404 (MessageBody ''Not found''), t'))"
proof -
  have a: "find (\<lambda>r. row_id r = ''7'') (rows two_rows) = None"
    by (simp add: two_rows_def ada_def bob_def)
  have b: "find (\<lambda>r. row_id r = ''1'') (rows two_rows) = Some ada"
    by (simp add: two_rows_def ada_def bob_def)
  have c: "filter (\<lambda>x. row_id x \<noteq> ''1'') (rows two_rows) = [bob]"
    by (simp add: two_rows_def ada_def bob_def)
  show ?thesis
    using delete_then_get [of deleteStudent getStudentById "''7''" two_rows]
      delete_then_get [of deleteStudent getStudentById "''1''" two_rows] a b c
    by auto
qed

section \<open>Route mounting\<close>

lemma resource_router_ignores_header:
  "resource_router c req s = Done out \<Longrightarrow>
     resource_router c (req\<lparr>authorization := h\<rparr>) s = Done out"
  by (auto split: http_method.splits list.splits)






end
